theory Spec2Isabelle
  imports Main "HOL-Library.Log_Nat"
begin

section \<open>Cards, experience values and the built-in sample questions\<close>

text \<open>
  A sample entry is an object with the keys \<open>question\<close>, \<open>answer\<close> and \<open>difficulty\<close>; a
  card of a study deck carries a \<open>subject\<close> as well (the spread \<open>{...q, subject}\<close>). Texts
  are byte strings; the three characters of the samples outside ASCII are written as their
  UTF-8 bytes. The \<open>id\<close> of a user-made card is never read by the study session and is left
  out.
\<close>

record sample =
  question :: string
  answer :: string
  difficulty :: string

record card = sample +
  subject :: string

definition with_subject :: "sample \<Rightarrow> string \<Rightarrow> card" where
  "with_subject q subj =
     \<lparr>question = question q, answer = answer q, difficulty = difficulty q, subject = subj\<rparr>"

definition XP_VALUES :: "string \<rightharpoonup> int" where
  "XP_VALUES = [''easy'' \<mapsto> 3, ''medium'' \<mapsto> 5, ''hard'' \<mapsto> 8]"

text \<open>\<open>XP_VALUES[card.difficulty] || 5\<close>: a missing key or a falsy value gives 5.\<close>

definition xpValue :: "string \<Rightarrow> int" where
  "xpValue d = (case XP_VALUES d of None \<Rightarrow> 5 | Some v \<Rightarrow> if v = 0 then 5 else v)"

definition sq :: "string \<Rightarrow> string \<Rightarrow> string \<Rightarrow> sample" where
  "sq q a d = \<lparr>question = q, answer = a, difficulty = d\<rparr>"

text \<open>
  \<open>sampleQuestions\<close> is an object literal; \<open>Object.keys\<close> lists its keys in insertion order,
  so it is an association list in the order of the literal.
\<close>

definition sampleQuestions :: "(string \<times> sample list) list" where
  "sampleQuestions =
   [(''math'',
      [sq ''What is the Pythagorean theorem?''
          (''a'' @ [CHR 0xC2, CHR 0xB2] @ '' + b'' @ [CHR 0xC2, CHR 0xB2] @ '' = c''
             @ [CHR 0xC2, CHR 0xB2] @ '', where c is the hypotenuse of a right triangle.'')
          ''medium'',
       sq ''What is the quadratic formula?''
          (''x = [-b '' @ [CHR 0xC2, CHR 0xB1] @ '' '' @ [CHR 0xE2, CHR 0x88, CHR 0x9A]
             @ ''(b'' @ [CHR 0xC2, CHR 0xB2] @ '' - 4ac)] / (2a)'')
          ''hard'',
       sq ''What is 2 + 2?'' ''4'' ''easy'']),
    (''english'',
      [sq ''What is a metaphor?''
          ''A figure of speech that describes an object or action in a way that isn't literally true.''
          ''medium'',
       sq ''What are the three main types of irony?''
          ''Verbal, situational, and dramatic irony.'' ''hard'',
       sq ''What is a noun?'' ''A word that names a person, place, thing, or idea.'' ''easy'']),
    (''spanish'',
      [sq ''How do you say 'hello' in Spanish?'' ''Hola'' ''easy'',
       sq ''What is the difference between 'ser' and 'estar'?''
          ''Both mean 'to be', but 'ser' is for permanent traits and 'estar' for temporary states.''
          ''hard'',
       sq ''How do you say 'thank you' in Spanish?'' ''Gracias'' ''easy'']),
    (''german'',
      [sq ''How do you say 'thank you' in German?'' ''Danke'' ''easy'',
       sq ''What are the three German articles?''
          ''Der (masculine), die (feminine), das (neuter)'' ''medium'',
       sq ''How do you say 'good morning' in German?'' ''Guten Morgen'' ''easy'']),
    (''science'',
      [sq ''What is photosynthesis?''
          ''The process by which plants convert light energy into chemical energy.'' ''medium'',
       sq ''What are the three states of matter?'' ''Solid, liquid, and gas.'' ''easy'',
       sq ''What is DNA?''
          ''Deoxyribonucleic acid - the molecule that carries genetic information.'' ''hard'']),
    (''history'',
      [sq ''When did World War II end?'' ''1945'' ''easy'',
       sq ''Who was the first president of the United States?'' ''George Washington'' ''easy'',
       sq ''What was the Renaissance?''
          ''A period of cultural rebirth in Europe from the 14th to 17th centuries.''
          ''medium''])]"

section \<open>Application state\<close>

text \<open>
  The module-level variables the study session and the gamification functions touch.
  Counters are JavaScript numbers holding integers far below \<open>2 ^ 53\<close>, where the double
  arithmetic of \<open>+\<close>, \<open>-\<close> and \<open>Math.floor(x / k)\<close> is exact; they are \<open>nat\<close> and \<open>int\<close>
  here. \<open>Date.now()\<close> is an argument \<open>now\<close> (milliseconds) of every function that reads
  the clock. \<open>studySession.timer\<close> is the handle \<open>setInterval\<close> returned, or \<open>None\<close> when
  it is \<open>null\<close>; the intervals that are registered are kept by the page, not by the session.
\<close>

record session =
  active :: bool
  startTime :: "int option"
  currentCard :: nat
  cardsStudied :: nat
  correctAnswers :: nat
  cards :: "card list"
  timer :: "nat option"
  sessionTime :: "int option"

record stats =
  level :: int
  xp :: int
  streak :: int
  totalCards :: nat

record user =
  userLevel :: int
  userXp :: int
  userStreak :: int

text \<open>
  What the functions show is kept as a log of events: a notification toast (the message
  with its interpolated numbers, and its type), the XP animation, the level-up banner
  and the card put on display.
\<close>

datatype notice =
    NoCards
  | SessionStarted
  | SessionPaused
  | SessionResumed
  | SessionComplete nat int int

datatype toast = Success | Info | Failure

datatype event =
    Notification notice toast
  | XPGain int string
  | LevelUp int
  | CardShown nat

datatype callback = CbEndStudySession | CbShowCurrentCard

datatype btn_label = ShowsPause | ShowsResume

datatype error = EmptyDeck | TypeError

text \<open>
  Two elements of the page carry state the functions read back: the pause button, whose
  label decides between pausing and resuming, and the timer text (minutes, seconds). An
  element that is not in the page is \<open>None\<close>. \<open>timeouts\<close> holds the callbacks registered
  with \<open>setTimeout\<close> and not yet run, each with the time it is due. \<open>intervals\<close> holds
  the handles of the intervals registered with \<open>setInterval\<close> and not cleared, all of
  them running \<open>updateSessionTimer\<close>; \<open>nextHandle\<close> is the handle the next one gets
  (handles are positive, so a handle is never falsy).
\<close>

record app =
  savedCards :: "card list"
  generatedCards :: "card list"
  studySession :: session
  userStats :: stats
  currentUser :: "user option"
  pauseBtn :: "btn_label option"
  sessionTimerText :: "(int \<times> int) option"
  events :: "event list"
  timeouts :: "(int \<times> callback) list"
  intervals :: "nat list"
  nextHandle :: nat

definition emit :: "event \<Rightarrow> app \<Rightarrow> app" where
  "emit e a = a\<lparr>events := events a @ [e]\<rparr>"

text \<open>
  \<open>setInterval(updateSessionTimer, 1000)\<close> registers one more interval and returns its
  handle; \<open>clearInterval\<close> removes the interval of a handle. \<open>stopTimer\<close> is the guarded
  call \<open>if (studySession.timer) clearInterval(studySession.timer)\<close>.
\<close>

definition setInterval :: "app \<Rightarrow> app \<times> nat" where
  "setInterval a =
     (a\<lparr>intervals := intervals a @ [nextHandle a], nextHandle := nextHandle a + 1\<rparr>,
      nextHandle a)"

definition clearInterval :: "nat \<Rightarrow> app \<Rightarrow> app" where
  "clearInterval h a = a\<lparr>intervals := removeAll h (intervals a)\<rparr>"

definition stopTimer :: "app \<Rightarrow> app" where
  "stopTimer a = (case timer (studySession a) of None \<Rightarrow> a | Some h \<Rightarrow> clearInterval h a)"

section \<open>Gamification\<close>

definition awardXP :: "int \<Rightarrow> string \<Rightarrow> app \<Rightarrow> app" where
  "awardXP amount reason a =
     (let st = (userStats a)\<lparr>xp := xp (userStats a) + amount,
                              totalCards := length (savedCards a) + length (generatedCards a)\<rparr>;
          a1 = a\<lparr>userStats := st\<rparr>;
          newLevel = xp st div 100 + 1;
          a2 = (if newLevel > level st
                then emit (LevelUp newLevel)
                       (a1\<lparr>userStats := st\<lparr>level := newLevel\<rparr>,
                           currentUser :=
                             map_option (\<lambda>u. u\<lparr>userLevel := newLevel\<rparr>) (currentUser a1)\<rparr>)
                else a1)
      in emit (XPGain amount reason) a2)"

section \<open>Double-precision arithmetic of the accuracy\<close>

text \<open>
  \<open>Math.round((correctAnswers / cardsStudied) * 100)\<close> divides and multiplies doubles, and
  neither result is an integer in general, so the two roundings to the nearest double
  (ties to even, 53 significant bits) are part of the model. Values are rationals;
  \<open>fl64\<close> is exact for the normal range of doubles, which holds every quotient of two
  counters and its product with 100. \<open>Math.round\<close> rounds a tie towards \<open>+\<infinity>\<close>.
\<close>

definition pow2 :: "int \<Rightarrow> rat" where
  "pow2 k = (if 0 \<le> k then 2 ^ nat k else 1 / 2 ^ nat (- k))"

text \<open>The binary exponent \<open>\<lfloor>log\<^sub>2 x\<rfloor>\<close> of a positive rational.\<close>

definition exponent :: "rat \<Rightarrow> int" where
  "exponent x =
     (let (p, q) = quotient_of x; k = bitlen p - bitlen q
      in if pow2 k \<le> x then k else k - 1)"

definition roundEven :: "rat \<Rightarrow> int" where
  "roundEven y =
     (let f = \<lfloor>y\<rfloor>; r = y - of_int f
      in if r < 1 / 2 then f else if 1 / 2 < r then f + 1
         else if even f then f else f + 1)"

definition fl64 :: "rat \<Rightarrow> rat" where
  "fl64 x =
     (if x = 0 then 0
      else let u = pow2 (exponent \<bar>x\<bar> - 52) in of_int (roundEven (x / u)) * u)"

definition mathRound :: "rat \<Rightarrow> int" where
  "mathRound x = \<lfloor>x + 1 / 2\<rfloor>"

section \<open>The study session\<close>

text \<open>The module-level initial value of \<open>studySession\<close> and the object assigned at the end.\<close>

definition initialSession :: session where
  "initialSession =
     \<lparr>active = False, startTime = None, currentCard = 0, cardsStudied = 0,
      correctAnswers = 0, cards = [], timer = None, sessionTime = Some 0\<rparr>"

definition idleSession :: session where
  "idleSession =
     \<lparr>active = False, startTime = None, currentCard = 0, cardsStudied = 0,
      correctAnswers = 0, cards = [], timer = None, sessionTime = None\<rparr>"

text \<open>
  The three constants \<open>endStudySession\<close> computes. \<open>Date.now() - null\<close> is \<open>Date.now()\<close>:
  \<open>null\<close> converts to 0.
\<close>

definition sessionDuration :: "int \<Rightarrow> session \<Rightarrow> int" where
  "sessionDuration now s = (now - (case startTime s of None \<Rightarrow> 0 | Some t \<Rightarrow> t)) div 1000"

definition accuracy :: "session \<Rightarrow> int" where
  "accuracy s =
     (if cardsStudied s > 0
      then mathRound (fl64 (fl64 (of_nat (correctAnswers s) / of_nat (cardsStudied s)) * 100))
      else 0)"

definition sessionXP :: "int \<Rightarrow> session \<Rightarrow> int" where
  "sessionXP now s =
     (let x0 = int (cardsStudied s) * 2;
          x1 = (if accuracy s \<ge> 80 then x0 + 10 else x0);
          x2 = (if sessionDuration now s \<ge> 600 then x1 + 5 else x1)
      in x2)"

definition endStudySession :: "int \<Rightarrow> app \<Rightarrow> app" where
  "endStudySession now a =
     (let a0 = stopTimer a;
          s = studySession a0;
          bonus = sessionXP now s;
          a1 = (if bonus > 0 then awardXP bonus ''Study session completed!'' a0 else a0);
          a2 = emit (Notification
                       (SessionComplete (cardsStudied (studySession a1))
                          (accuracy s) bonus) Success) a1
      in a2\<lparr>studySession := idleSession,
            sessionTimerText := map_option (\<lambda>_. (0, 0)) (sessionTimerText a2),
            pauseBtn := map_option (\<lambda>_. ShowsPause) (pauseBtn a2)\<rparr>)"

definition showCurrentCard :: "int \<Rightarrow> app \<Rightarrow> app" where
  "showCurrentCard now a =
     (if currentCard (studySession a) \<ge> length (cards (studySession a))
      then endStudySession now a
      else emit (CardShown (currentCard (studySession a))) a)"

text \<open>
  \<open>startStudySession\<close> reads the constant \<open>sampleQuestions\<close>; the table is an argument of
  \<open>startStudySessionWith\<close>, so that the branch of a deck that is still empty after the
  fallback can be reached. That branch shows the error toast and returns: it is the
  result \<open>EmptyDeck\<close>. The function has no \<open>await\<close> and runs to its end at once. It
  assigns a new session object and a new interval and clears no interval: the interval of
  a session that was running stays registered.
\<close>

definition fallbackDeck :: "(string \<times> sample list) list \<Rightarrow> card list" where
  "fallbackDeck samples =
     concat (map (\<lambda>(subj, qs). map (\<lambda>q. with_subject q subj) qs) samples)"

definition studyCardsOf :: "(string \<times> sample list) list \<Rightarrow> app \<Rightarrow> card list" where
  "studyCardsOf samples a =
     (let studyCards = savedCards a @ generatedCards a
      in if length studyCards = 0 then fallbackDeck samples else studyCards)"

definition startStudySessionWith ::
  "(string \<times> sample list) list \<Rightarrow> int \<Rightarrow> app \<Rightarrow> app \<times> error option" where
  "startStudySessionWith samples now a =
     (let studyCards = studyCardsOf samples a
      in if length studyCards = 0
         then (emit (Notification NoCards Failure) a, Some EmptyDeck)
         else
           (let s = \<lparr>active = True, startTime = Some now, currentCard = 0, cardsStudied = 0,
                     correctAnswers = 0, cards = studyCards, timer = None,
                     sessionTime = Some 0\<rparr>;
                (a1, h) = setInterval (a\<lparr>studySession := s\<rparr>);
                a2 = a1\<lparr>studySession := (studySession a1)\<lparr>timer := Some h\<rparr>\<rparr>;
                a3 = showCurrentCard now a2
            in (emit (Notification SessionStarted Success) a3, None)))"

definition startStudySession :: "int \<Rightarrow> app \<Rightarrow> app \<times> error option" where
  "startStudySession = startStudySessionWith sampleQuestions"

text \<open>
  \<open>!studySession.startTime\<close> holds for \<open>null\<close> and for 0. The clock does not run
  backwards, so the elapsed seconds are not negative and \<open>%\<close> is \<open>mod\<close>. \<open>tick\<close> is one
  second passing: every registered interval runs its callback once.
\<close>

definition updateSessionTimer :: "int \<Rightarrow> app \<Rightarrow> app" where
  "updateSessionTimer now a =
     (let s = studySession a
      in if sessionTimerText a = None \<or> \<not> active s \<or> startTime s = None \<or> startTime s = Some 0
         then a
         else (let elapsed = sessionDuration now s
               in a\<lparr>sessionTimerText := Some (elapsed div 60, elapsed mod 60)\<rparr>))"

definition tick :: "int \<Rightarrow> app \<Rightarrow> app" where
  "tick now a = foldl (\<lambda>b h. updateSessionTimer now b) a (intervals a)"

definition pauseStudySession :: "app \<Rightarrow> app" where
  "pauseStudySession a =
     (case pauseBtn a of
        None \<Rightarrow> a
      | Some label \<Rightarrow>
          (let a0 = stopTimer a;
               a1 = a0\<lparr>studySession := (studySession a0)\<lparr>timer := None\<rparr>\<rparr>
           in if label = ShowsPause
              then emit (Notification SessionPaused Info) (a1\<lparr>pauseBtn := Some ShowsResume\<rparr>)
              else (let (a2, h) = setInterval a1
                    in emit (Notification SessionResumed Info)
                         (a2\<lparr>studySession := (studySession a2)\<lparr>timer := Some h\<rparr>,
                             pauseBtn := Some ShowsPause\<rparr>))))"

text \<open>
  \<open>answerCard\<close>: reading \<open>card.difficulty\<close> of a position past the deck throws a
  \<open>TypeError\<close> after both counters have been incremented; the state at the throw stays.
\<close>

definition advance :: "int \<Rightarrow> app \<Rightarrow> app" where
  "advance now a =
     (let a1 = a\<lparr>studySession :=
                  (studySession a)\<lparr>currentCard := currentCard (studySession a) + 1\<rparr>\<rparr>
      in if currentCard (studySession a1) \<ge> length (cards (studySession a1))
         then a1\<lparr>timeouts := timeouts a1 @ [(now + 1000, CbEndStudySession)]\<rparr>
         else a1\<lparr>timeouts := timeouts a1 @ [(now + 500, CbShowCurrentCard)]\<rparr>)"

definition answerCard :: "int \<Rightarrow> bool \<Rightarrow> app \<Rightarrow> app \<times> error option" where
  "answerCard now isCorrect a =
     (let a1 = a\<lparr>studySession :=
                  (studySession a)\<lparr>cardsStudied := cardsStudied (studySession a) + 1\<rparr>\<rparr>
      in if isCorrect
         then
           (let a2 = a1\<lparr>studySession :=
                        (studySession a1)\<lparr>correctAnswers :=
                                             correctAnswers (studySession a1) + 1\<rparr>\<rparr>;
                s = studySession a2
            in if currentCard s < length (cards s)
               then (advance now
                       (awardXP (xpValue (difficulty (cards s ! currentCard s)))
                          ''Correct answer!'' a2), None)
               else (a2, Some TypeError))
         else (advance now a1, None))"

section \<open>The event loop\<close>

definition runCallback :: "int \<Rightarrow> callback \<Rightarrow> app \<Rightarrow> app" where
  "runCallback now cb a =
     (case cb of CbEndStudySession \<Rightarrow> endStudySession now a
               | CbShowCurrentCard \<Rightarrow> showCurrentCard now a)"

text \<open>Runs the pending timeouts, each at the time it is due, earliest first.\<close>

definition fireTimeouts :: "app \<Rightarrow> app" where
  "fireTimeouts a =
     foldl (\<lambda>b (t, cb). runCallback t cb b) (a\<lparr>timeouts := []\<rparr>) (sort_key fst (timeouts a))"

text \<open>
  A run of answers: each is a click at a time of its own, and the timeout it registers
  runs before the next click. An exception ends the handler only; the page goes on.
\<close>

fun answerAll :: "(int \<times> bool) list \<Rightarrow> app \<Rightarrow> app \<times> error list" where
  "answerAll [] a = (a, [])"
| "answerAll ((t, isCorrect) # rest) a =
     (case answerCard t isCorrect a of
        (a1, e) \<Rightarrow>
          (case answerAll rest (fireTimeouts a1) of
             (a2, es) \<Rightarrow> (a2, (case e of None \<Rightarrow> [] | Some x \<Rightarrow> [x]) @ es)))"

text \<open>The operations of the engine, as the page can trigger them.\<close>

datatype op =
    Start
  | PauseResume
  | End
  | Answer bool
  | Tick
  | Timeouts
  | Award int string

fun step :: "int \<Rightarrow> op \<Rightarrow> app \<Rightarrow> app" where
  "step now Start a = fst (startStudySession now a)"
| "step now PauseResume a = pauseStudySession a"
| "step now End a = endStudySession now a"
| "step now (Answer b) a = fst (answerCard now b a)"
| "step now Tick a = tick now a"
| "step now Timeouts a = fireTimeouts a"
| "step now (Award amount reason) a = awardXP amount reason a"

fun run :: "(int \<times> op) list \<Rightarrow> app \<Rightarrow> app" where
  "run [] a = a"
| "run ((t, x) # rest) a = run rest (step t x a)"

fun nonNegative :: "op \<Rightarrow> bool" where
  "nonNegative (Award amount reason) = (0 \<le> amount)"
| "nonNegative _ = True"

text \<open>The page as it is loaded, for a demo user or for none.\<close>

definition initialApp :: app where
  "initialApp =
     \<lparr>savedCards = [], generatedCards = [], studySession = initialSession,
      userStats = \<lparr>level = 1, xp = 0, streak = 0, totalCards = 0\<rparr>,
      currentUser = None, pauseBtn = Some ShowsPause, sessionTimerText = Some (0, 0),
      events = [], timeouts = [], intervals = [], nextHandle = 1\<rparr>"

definition simulateLogin :: "app \<Rightarrow> app" where
  "simulateLogin a =
     a\<lparr>currentUser := Some \<lparr>userLevel = 5, userXp = 450, userStreak = 7\<rparr>,
       userStats := \<lparr>level = 5, xp = 450, streak = 7,
                     totalCards = length (savedCards a) + length (generatedCards a)\<rparr>\<rparr>"

definition startedSession :: "int \<Rightarrow> nat \<Rightarrow> card list \<Rightarrow> session" where
  "startedSession now h deck =
     \<lparr>active = True, startTime = Some now, currentCard = 0, cardsStudied = 0,
      correctAnswers = 0, cards = deck, timer = Some h, sessionTime = Some 0\<rparr>"

text \<open>One answer and the timeout it registers.\<close>

definition answerAndSettle :: "int \<Rightarrow> bool \<Rightarrow> app \<Rightarrow> app" where
  "answerAndSettle t isCorrect a = fireTimeouts (fst (answerCard t isCorrect a))"

section \<open>The specification's formulas\<close>

text \<open>
  The definitions of this section follow the words of the specification, not the code:
  the bonus rule, the accuracy as \<open>round(100 * correctCount / cardsAnswered)\<close> over exact
  numbers, the fallback deck as the categories in the order the specification names
  them, and the session timer with its running base offset.
\<close>

definition bonusXP_spec :: "int \<Rightarrow> int \<Rightarrow> int \<Rightarrow> int" where
  "bonusXP_spec cardsAnswered accuracyPercent durationSeconds =
     2 * cardsAnswered + (if accuracyPercent \<ge> 80 then 10 else 0)
       + (if durationSeconds \<ge> 600 then 5 else 0)"

definition accuracyPercent_spec :: "nat \<Rightarrow> nat \<Rightarrow> int" where
  "accuracyPercent_spec correctCount cardsAnswered =
     (if cardsAnswered > 0
      then round (100 * rat_of_nat correctCount / rat_of_nat cardsAnswered)
      else 0)"

definition fallbackDeck_spec :: "card list" where
  "fallbackDeck_spec =
     concat (map (\<lambda>category.
                    map (\<lambda>q. with_subject q category)
                      (case map_of sampleQuestions category of None \<Rightarrow> [] | Some qs \<Rightarrow> qs))
               [''math'', ''english'', ''spanish'', ''german'', ''science'', ''history''])"

record spec_timer =
  running :: bool
  accumulated :: int
  since :: int

definition timer_start_spec :: "int \<Rightarrow> spec_timer" where
  "timer_start_spec now = \<lparr>running = True, accumulated = 0, since = now\<rparr>"

definition timer_pause_spec :: "int \<Rightarrow> spec_timer \<Rightarrow> spec_timer" where
  "timer_pause_spec now tm =
     (if running tm
      then tm\<lparr>running := False, accumulated := accumulated tm + (now - since tm)\<rparr>
      else tm)"

definition timer_resume_spec :: "int \<Rightarrow> spec_timer \<Rightarrow> spec_timer" where
  "timer_resume_spec now tm = (if running tm then tm else tm\<lparr>running := True, since := now\<rparr>)"

definition timer_elapsed_spec :: "int \<Rightarrow> spec_timer \<Rightarrow> int" where
  "timer_elapsed_spec now tm =
     (accumulated tm + (if running tm then now - since tm else 0)) div 1000"

section \<open>Example states and runs\<close>

text \<open>
  A session of five answered cards, four of them right; a page with two saved cards and
  one with one saved and two generated cards; a session of forty answered cards,
  twenty-three of them right; a session paused for ten minutes; a session ended by a
  click while the timeout of its last answer is pending; a session whose last card has
  just been answered; and a session started a second time and then paused.
\<close>

definition fiveCards :: app where
  "fiveCards =
     initialApp\<lparr>studySession :=
       \<lparr>active = True, startTime = Some 1700000000000, currentCard = 5, cardsStudied = 5,
        correctAnswers = 4, cards = take 5 (fallbackDeck sampleQuestions), timer = Some 1,
        sessionTime = Some 0\<rparr>,
       intervals := [1], nextHandle := 2\<rparr>"

definition twoCards :: app where
  "twoCards =
     initialApp\<lparr>savedCards := [with_subject (sq ''What is 2 + 2?'' ''4'' ''easy'') ''math'',
                                 with_subject (sq ''What is DNA?'' ''acid'' ''hard'') ''science'']\<rparr>"

definition threeCards :: app where
  "threeCards =
     initialApp\<lparr>savedCards := [with_subject (sq ''What is 2 + 2?'' ''4'' ''easy'') ''math''],
        generatedCards := [with_subject (sq ''What is DNA?'' ''acid'' ''hard'') ''science'',
                           with_subject (sq ''What is a noun?'' ''A word'' ''medium'') ''english'']\<rparr>"

definition fortyCards :: app where
  "fortyCards =
     initialApp\<lparr>studySession :=
       \<lparr>active = True, startTime = Some 1700000000000, currentCard = 40, cardsStudied = 40,
        correctAnswers = 23,
        cards = replicate 40 (with_subject (sq ''What is 2 + 2?'' ''4'' ''easy'') ''math''),
        timer = Some 1, sessionTime = Some 0\<rparr>,
       intervals := [1], nextHandle := 2\<rparr>"

definition pausedTrace :: "(int \<times> op) list" where
  "pausedTrace =
     [(1700000000000, Start), (1700000004000, Tick), (1700000005000, PauseResume),
      (1700000605000, PauseResume)]"

definition doubleEndTrace :: "(int \<times> op) list" where
  "doubleEndTrace =
     [(1700000000000, Start), (1700000003000, Answer True), (1700000003500, Timeouts),
      (1700000006000, Answer False), (1700000006300, End)]"

definition lastAnswerTrace :: "(int \<times> op) list" where
  "lastAnswerTrace =
     [(1700000000000, Start), (1700000003000, Answer True), (1700000003500, Timeouts),
      (1700000006000, Answer True)]"

definition restartTrace :: "(int \<times> op) list" where
  "restartTrace =
     [(1700000000000, Start), (1700000060000, Start), (1700000065000, PauseResume)]"

section \<open>Observations on the event log\<close>

text \<open>The invariant of the user's progress and the level-up events of a log.\<close>

definition level_ok :: "stats \<Rightarrow> bool" where
  "level_ok st = (level st = xp st div 100 + 1)"

fun levelUps :: "event list \<Rightarrow> int list" where
  "levelUps [] = []"
| "levelUps (LevelUp n # es) = n # levelUps es"
| "levelUps (_ # es) = levelUps es"

fun xpGains :: "event list \<Rightarrow> (int \<times> string) list" where
  "xpGains [] = []"
| "xpGains (XPGain n r # es) = (n, r) # xpGains es"
| "xpGains (_ # es) = xpGains es"

fun completions :: "event list \<Rightarrow> (nat \<times> int \<times> int) list" where
  "completions [] = []"
| "completions (Notification (SessionComplete n acc b) k # es) = (n, acc, b) # completions es"
| "completions (_ # es) = completions es"

section \<open>Frame lemmas\<close>

lemma userStats_emit [simp]: "userStats (emit e a) = userStats a"
  by (simp add: emit_def)

lemma events_emit [simp]: "events (emit e a) = events a @ [e]"
  by (simp add: emit_def)

lemma studySession_emit [simp]: "studySession (emit e a) = studySession a"
  by (simp add: emit_def)

lemma timeouts_emit [simp]: "timeouts (emit e a) = timeouts a"
  by (simp add: emit_def)

lemma stopTimer_fields [simp]:
  "userStats (stopTimer a) = userStats a"
  "events (stopTimer a) = events a"
  "studySession (stopTimer a) = studySession a"
  "timeouts (stopTimer a) = timeouts a"
  "savedCards (stopTimer a) = savedCards a"
  "generatedCards (stopTimer a) = generatedCards a"
  "currentUser (stopTimer a) = currentUser a"
  "pauseBtn (stopTimer a) = pauseBtn a"
  "sessionTimerText (stopTimer a) = sessionTimerText a"
  "nextHandle (stopTimer a) = nextHandle a"
  by (simp_all add: stopTimer_def clearInterval_def split: option.split)

lemma intervals_stopTimer:
  "intervals (stopTimer a) =
     (case timer (studySession a) of None \<Rightarrow> intervals a
      | Some h \<Rightarrow> removeAll h (intervals a))"
  by (simp add: stopTimer_def clearInterval_def split: option.split)

lemma updateSessionTimer_fields [simp]:
  "studySession (updateSessionTimer now a) = studySession a"
  "userStats (updateSessionTimer now a) = userStats a"
  "intervals (updateSessionTimer now a) = intervals a"
  by (simp_all add: updateSessionTimer_def Let_def)

lemma levelUps_append: "levelUps (xs @ ys) = levelUps xs @ levelUps ys"
  by (induction xs rule: levelUps.induct) simp_all

lemma xpGains_append: "xpGains (xs @ ys) = xpGains xs @ xpGains ys"
  by (induction xs rule: xpGains.induct) simp_all

lemma completions_append: "completions (xs @ ys) = completions xs @ completions ys"
  by (induction xs rule: completions.induct) simp_all

lemma xp_awardXP: "xp (userStats (awardXP amount reason a)) = xp (userStats a) + amount"
  by (simp add: awardXP_def Let_def)

lemma level_awardXP:
  "level (userStats (awardXP amount reason a)) =
     max (level (userStats a)) ((xp (userStats a) + amount) div 100 + 1)"
  by (simp add: awardXP_def Let_def)

lemma events_awardXP:
  "events (awardXP amount reason a) =
     events a @ (if (xp (userStats a) + amount) div 100 + 1 > level (userStats a)
                 then [LevelUp ((xp (userStats a) + amount) div 100 + 1)] else [])
       @ [XPGain amount reason]"
  by (simp add: awardXP_def Let_def emit_def)

lemma studySession_awardXP [simp]: "studySession (awardXP amount reason a) = studySession a"
  by (simp add: awardXP_def Let_def emit_def)

lemma timeouts_awardXP [simp]: "timeouts (awardXP amount reason a) = timeouts a"
  by (simp add: awardXP_def Let_def emit_def)

lemma xpValue_pos: "0 < xpValue d"
  by (simp add: xpValue_def XP_VALUES_def)

lemma xpValue_table:
  "xpValue ''easy'' = 3" "xpValue ''medium'' = 5" "xpValue ''hard'' = 8"
  by (simp_all add: xpValue_def XP_VALUES_def)

lemma sessionXP_nonneg: "0 \<le> sessionXP now s"
  by (simp add: sessionXP_def Let_def)

lemma sessionXP_eq_spec:
  "sessionXP now s = bonusXP_spec (int (cardsStudied s)) (accuracy s) (sessionDuration now s)"
  by (simp add: sessionXP_def bonusXP_spec_def Let_def)

lemma sessionDuration_timer [simp]:
  "sessionDuration now (s\<lparr>timer := b\<rparr>) = sessionDuration now s"
  by (simp add: sessionDuration_def)

lemma studySession_endStudySession [simp]:
  "studySession (endStudySession now a) = idleSession"
  by (simp add: endStudySession_def Let_def)

lemma timeouts_endStudySession [simp]:
  "timeouts (endStudySession now a) = timeouts a"
  by (simp add: endStudySession_def Let_def)

lemma events_awardXP_stopTimer:
  "events (awardXP amount reason (stopTimer a)) = events (awardXP amount reason a)"
  by (simp add: events_awardXP)

lemma events_endStudySession:
  "events (endStudySession now a) =
     (if sessionXP now (studySession a) > 0
      then events (awardXP (sessionXP now (studySession a)) ''Study session completed!'' a)
      else events a)
     @ [Notification (SessionComplete (cardsStudied (studySession a)) (accuracy (studySession a))
          (sessionXP now (studySession a))) Success]"
  by (simp add: endStudySession_def Let_def emit_def events_awardXP_stopTimer)

lemma xp_endStudySession:
  "xp (userStats (endStudySession now a)) = xp (userStats a) + sessionXP now (studySession a)"
  using sessionXP_nonneg [of now "studySession a"]
  by (simp add: endStudySession_def Let_def emit_def xp_awardXP)

lemma studied_endStudySession:
  "map fst (completions (events (endStudySession now a))) =
     map fst (completions (events a)) @ [cardsStudied (studySession a)]"
  by (simp add: events_endStudySession events_awardXP completions_append)

lemma pause_session:
  "studySession (pauseStudySession a) =
     (studySession a)\<lparr>timer := (case pauseBtn a of None \<Rightarrow> timer (studySession a)
                                  | Some label \<Rightarrow>
                                      if label = ShowsResume then Some (nextHandle a) else None)\<rparr>"
proof (cases "pauseBtn a")
  case None
  then show ?thesis by (simp add: pauseStudySession_def)
next
  case (Some label)
  then show ?thesis
    by (cases label) (simp_all add: pauseStudySession_def setInterval_def Let_def)
qed

lemma pauseStudySession_userStats: "userStats (pauseStudySession a) = userStats a"
  by (simp add: pauseStudySession_def setInterval_def Let_def split: option.split)

lemma foldl_updateSessionTimer:
  "studySession (foldl (\<lambda>b h. updateSessionTimer now b) a hs) = studySession a
   \<and> userStats (foldl (\<lambda>b h. updateSessionTimer now b) a hs) = userStats a"
  by (induction hs arbitrary: a) simp_all

lemma tick_session: "studySession (tick now a) = studySession a"
  by (simp add: tick_def foldl_updateSessionTimer)

lemma tick_userStats: "userStats (tick now a) = userStats a"
  by (simp add: tick_def foldl_updateSessionTimer)

lemma advance_userStats: "userStats (advance now a) = userStats a"
  by (simp add: advance_def Let_def)

lemma studySession_advance:
  "studySession (advance now a) =
     (studySession a)\<lparr>currentCard := currentCard (studySession a) + 1\<rparr>"
  by (simp add: advance_def Let_def)

lemma events_advance [simp]: "events (advance now a) = events a"
  by (simp add: advance_def Let_def)

lemma timeouts_advance:
  "timeouts (advance now a) =
     timeouts a @ [if currentCard (studySession a) + 1 \<ge> length (cards (studySession a))
                   then (now + 1000, CbEndStudySession) else (now + 500, CbShowCurrentCard)]"
  by (simp add: advance_def Let_def)

lemma fireTimeouts_single:
  "timeouts a = [(t, cb)] \<Longrightarrow> fireTimeouts a = runCallback t cb (a\<lparr>timeouts := []\<rparr>)"
  by (simp add: fireTimeouts_def)

section \<open>The level formula\<close>

lemma awardXP_level_ok:
  assumes "level_ok (userStats a)" and "0 \<le> amount"
  shows "level_ok (userStats (awardXP amount reason a))"
proof -
  have "xp (userStats a) div 100 \<le> (xp (userStats a) + amount) div 100"
    using assms(2) by (intro zdiv_mono1) simp_all
  with assms(1) show ?thesis
    by (simp add: level_ok_def xp_awardXP level_awardXP)
qed

lemma endStudySession_level_ok:
  "level_ok (userStats a) \<Longrightarrow> level_ok (userStats (endStudySession now a))"
  by (simp add: endStudySession_def Let_def awardXP_level_ok)

lemma showCurrentCard_level_ok:
  "level_ok (userStats a) \<Longrightarrow> level_ok (userStats (showCurrentCard now a))"
  by (simp add: showCurrentCard_def endStudySession_level_ok)

lemma startStudySessionWith_level_ok:
  "level_ok (userStats a) \<Longrightarrow>
   level_ok (userStats (fst (startStudySessionWith samples now a)))"
  by (simp add: startStudySessionWith_def setInterval_def Let_def showCurrentCard_level_ok)

lemma answerCard_level_ok:
  "level_ok (userStats a) \<Longrightarrow> level_ok (userStats (fst (answerCard now b a)))"
  by (simp add: answerCard_def Let_def advance_userStats awardXP_level_ok
      less_imp_le [OF xpValue_pos])

lemma runCallback_level_ok:
  "level_ok (userStats a) \<Longrightarrow> level_ok (userStats (runCallback now cb a))"
  by (cases cb) (simp_all add: runCallback_def endStudySession_level_ok showCurrentCard_level_ok)

lemma foldl_runCallback_level_ok:
  "level_ok (userStats a) \<Longrightarrow>
   level_ok (userStats (foldl (\<lambda>b (t, cb). runCallback t cb b) a cbs))"
  by (induction cbs arbitrary: a) (auto simp: runCallback_level_ok)

lemma fireTimeouts_level_ok:
  "level_ok (userStats a) \<Longrightarrow> level_ok (userStats (fireTimeouts a))"
  unfolding fireTimeouts_def by (rule foldl_runCallback_level_ok) simp

text \<open>
  Claim C1. If the level of the user's progress is \<open>floor(experience / 100) + 1\<close> and the
  amount is not negative, the level is again \<open>floor(experience / 100) + 1\<close> after
  \<open>awardXP\<close>; and every operation of the engine (starting, pausing or resuming, ending,
  answering, the timer tick, the pending timeouts, an award of a non-negative amount)
  keeps that formula.
\<close>

theorem level_formula_invariant:
  assumes "level (userStats a) = xp (userStats a) div 100 + 1"
    and "0 \<le> amount" and "nonNegative x"
  shows "level (userStats (awardXP amount reason a))
           = xp (userStats (awardXP amount reason a)) div 100 + 1
         \<and> level_ok (userStats (step now x a))"
proof
  have ok: "level_ok (userStats a)"
    using assms(1) by (simp add: level_ok_def)
  from awardXP_level_ok [OF ok assms(2)]
  show "level (userStats (awardXP amount reason a))
           = xp (userStats (awardXP amount reason a)) div 100 + 1"
    by (simp add: level_ok_def)
  show "level_ok (userStats (step now x a))"
  proof (cases x)
    case Start
    then show ?thesis
      by (simp add: startStudySession_def startStudySessionWith_level_ok ok)
  next
    case PauseResume
    then show ?thesis by (simp add: pauseStudySession_userStats ok)
  next
    case End
    then show ?thesis by (simp add: endStudySession_level_ok ok)
  next
    case (Answer b)
    then show ?thesis by (simp add: answerCard_level_ok ok)
  next
    case Tick
    then show ?thesis by (simp add: tick_userStats ok)
  next
    case Timeouts
    then show ?thesis by (simp add: fireTimeouts_level_ok ok)
  next
    case (Award n r)
    then show ?thesis using assms(3) by (simp add: awardXP_level_ok ok)
  qed
qed

theorem level_formula_invariant_witness:
  "level_ok (userStats (awardXP 250 ''Cards saved!'' (simulateLogin initialApp)))
   \<and> level (userStats (awardXP 250 ''Cards saved!'' (simulateLogin initialApp))) = 8
   \<and> level_ok (userStats (step 1700000000000 End (simulateLogin initialApp)))"
  using level_formula_invariant
    [of "simulateLogin initialApp" 250 End "''Cards saved!''" 1700000000000]
  by (simp add: level_ok_def simulateLogin_def initialApp_def awardXP_def emit_def Let_def)

text \<open>
  Claim C9. An award reports a level-up exactly when the level recomputed from the new
  experience exceeds the level before; it then reports one level-up, with the final
  level, however many thresholds the award crosses, and that level is the one stored.
\<close>

theorem awardXP_single_level_up:
  "levelUps (drop (length (events a)) (events (awardXP amount reason a))) =
     (if (xp (userStats a) + amount) div 100 + 1 > level (userStats a)
      then [(xp (userStats a) + amount) div 100 + 1] else [])
   \<and> level (userStats (awardXP amount reason a)) =
     (if (xp (userStats a) + amount) div 100 + 1 > level (userStats a)
      then (xp (userStats a) + amount) div 100 + 1 else level (userStats a))"
  by (simp add: awardXP_def Let_def emit_def)

theorem awardXP_single_level_up_witness:
  "levelUps (drop (length (events (simulateLogin initialApp)))
      (events (awardXP 250 ''Cards saved!'' (simulateLogin initialApp)))) = [8]
   \<and> levelUps (drop (length (events (simulateLogin initialApp)))
      (events (awardXP 49 ''Cards saved!'' (simulateLogin initialApp)))) = []"
  using awardXP_single_level_up [of "simulateLogin initialApp" 250 "''Cards saved!''"]
    awardXP_single_level_up [of "simulateLogin initialApp" 49 "''Cards saved!''"]
  by (simp add: simulateLogin_def initialApp_def)

section \<open>The end of a session\<close>

text \<open>
  Claim C5. At the end of a session the bonus is twice the number of answered cards, plus
  10 if the reported accuracy is at least 80, plus 5 if the duration is at least 600
  seconds; it is the bonus the completion message reports, it is awarded by one call of
  \<open>awardXP\<close> with the reason of a completed session exactly when it is positive, by none
  otherwise, and the experience grows by it.
\<close>

theorem endStudySession_bonus:
  "completions (drop (length (events a)) (events (endStudySession now a))) =
     [(cardsStudied (studySession a), accuracy (studySession a),
       bonusXP_spec (int (cardsStudied (studySession a))) (accuracy (studySession a))
         (sessionDuration now (studySession a)))]
   \<and> xpGains (drop (length (events a)) (events (endStudySession now a))) =
     (if bonusXP_spec (int (cardsStudied (studySession a))) (accuracy (studySession a))
           (sessionDuration now (studySession a)) > 0
      then [(bonusXP_spec (int (cardsStudied (studySession a))) (accuracy (studySession a))
               (sessionDuration now (studySession a)), ''Study session completed!'')]
      else [])
   \<and> xp (userStats (endStudySession now a)) =
       xp (userStats a)
         + bonusXP_spec (int (cardsStudied (studySession a))) (accuracy (studySession a))
             (sessionDuration now (studySession a))"
  by (simp add: events_endStudySession events_awardXP xp_endStudySession
      sessionXP_eq_spec [symmetric] completions_append xpGains_append)

lemma accuracy_4_of_5: "accuracy (studySession fiveCards) = 80"
  by code_simp

lemma duration_700: "sessionDuration 1700000700000 (studySession fiveCards) = 700"
  by (simp add: sessionDuration_def fiveCards_def)

lemma cardsStudied_five: "cardsStudied (studySession fiveCards) = 5"
  by (simp add: fiveCards_def)

lemma events_five: "events fiveCards = []"
  by (simp add: fiveCards_def initialApp_def)

theorem endStudySession_bonus_witness:
  "xpGains (events (endStudySession 1700000700000 fiveCards))
     = [(25, ''Study session completed!'')]
   \<and> completions (events (endStudySession 1700000700000 fiveCards)) = [(5, 80, 25)]"
  using endStudySession_bonus [of fiveCards 1700000700000]
  by (simp add: accuracy_4_of_5 duration_700 cardsStudied_five events_five bonusXP_spec_def)

text \<open>
  The accuracy is 0 when no card was answered, and three right answers of four give 75,
  as the rounding of the exact quotient does.
\<close>

lemma accuracy_none_studied: "cardsStudied s = 0 \<Longrightarrow> accuracy s = 0"
  by (simp add: accuracy_def)

lemma accuracy_3_of_4:
  "accuracy (idleSession\<lparr>cardsStudied := 4, correctAnswers := 3\<rparr>) = 75
   \<and> accuracyPercent_spec 3 4 = 75"
  by code_simp

text \<open>
  Claim C4. The accuracy of the summary is not \<open>round(100 * correctCount / cardsAnswered)\<close>
  for every session: the quotient is rounded to a double before it is multiplied by 100,
  and the product is rounded again. With 23 right answers of 40 the exact value is 57.5,
  which rounds to 58; the product of the doubles is 57.49999999999999 and the summary
  reports 57.
\<close>

theorem accuracy_of_23_in_40:
  "completions (events (endStudySession 1700000900000 fortyCards)) = [(40, 57, 85)]
   \<and> accuracyPercent_spec 23 40 = 58"
  by code_simp

section \<open>Starting a session\<close>

lemma start_nonempty:
  assumes "studyCardsOf samples a \<noteq> []"
  shows "startStudySessionWith samples now a =
     (a\<lparr>studySession := startedSession now (nextHandle a) (studyCardsOf samples a),
        events := events a @ [CardShown 0, Notification SessionStarted Success],
        intervals := intervals a @ [nextHandle a],
        nextHandle := nextHandle a + 1\<rparr>, None)"
  using assms
  by (simp add: startStudySessionWith_def Let_def showCurrentCard_def emit_def
      startedSession_def setInterval_def)

lemma studyCardsOf_empty_iff:
  "studyCardsOf samples a = [] \<longleftrightarrow>
     savedCards a = [] \<and> generatedCards a = [] \<and> fallbackDeck samples = []"
  by (auto simp: studyCardsOf_def Let_def)

text \<open>
  Claim C7. When the deck put together for a session has no card, starting fails with
  \<open>EmptyDeck\<close>: the study session is left as it was (so an idle session stays idle and
  no counter changes), no interval is registered, the user's progress and the pending
  timeouts are untouched, and the only effect is the error notification.
\<close>

theorem start_empty_deck:
  assumes "studyCardsOf samples a = []"
  shows "snd (startStudySessionWith samples now a) = Some EmptyDeck
    \<and> studySession (fst (startStudySessionWith samples now a)) = studySession a
    \<and> userStats (fst (startStudySessionWith samples now a)) = userStats a
    \<and> timeouts (fst (startStudySessionWith samples now a)) = timeouts a
    \<and> intervals (fst (startStudySessionWith samples now a)) = intervals a
    \<and> events (fst (startStudySessionWith samples now a))
        = events a @ [Notification NoCards Failure]"
  using assms by (simp add: startStudySessionWith_def Let_def emit_def)

theorem start_empty_deck_witness:
  "snd (startStudySessionWith [] 1700000000000 initialApp) = Some EmptyDeck
   \<and> studySession (fst (startStudySessionWith [] 1700000000000 initialApp)) = initialSession
   \<and> \<not> active initialSession \<and> timer initialSession = None
   \<and> intervals (fst (startStudySessionWith [] 1700000000000 initialApp)) = []"
  using start_empty_deck [of "[]" initialApp 1700000000000]
  by (simp add: studyCardsOf_def fallbackDeck_def initialApp_def initialSession_def)

lemma fallbackDeck_sampleQuestions: "fallbackDeck sampleQuestions = fallbackDeck_spec"
  by (simp add: fallbackDeck_def fallbackDeck_spec_def sampleQuestions_def)

lemma length_fallbackDeck_spec: "length fallbackDeck_spec = 18"
  by (simp add: fallbackDeck_spec_def sampleQuestions_def)

lemma subjects_fallbackDeck_spec:
  "map subject fallbackDeck_spec =
     [''math'', ''math'', ''math'', ''english'', ''english'', ''english'',
      ''spanish'', ''spanish'', ''spanish'', ''german'', ''german'', ''german'',
      ''science'', ''science'', ''science'', ''history'', ''history'', ''history'']"
  by (simp add: fallbackDeck_spec_def sampleQuestions_def with_subject_def)

lemma questions_fallbackDeck_spec:
  "map question fallbackDeck_spec =
     [''What is the Pythagorean theorem?'', ''What is the quadratic formula?'',
      ''What is 2 + 2?'', ''What is a metaphor?'', ''What are the three main types of irony?'',
      ''What is a noun?'', ''How do you say 'hello' in Spanish?'',
      ''What is the difference between 'ser' and 'estar'?'',
      ''How do you say 'thank you' in Spanish?'', ''How do you say 'thank you' in German?'',
      ''What are the three German articles?'', ''How do you say 'good morning' in German?'',
      ''What is photosynthesis?'', ''What are the three states of matter?'', ''What is DNA?'',
      ''When did World War II end?'', ''Who was the first president of the United States?'',
      ''What was the Renaissance?'']"
  by (simp add: fallbackDeck_spec_def sampleQuestions_def with_subject_def sq_def)

lemma distinct_fallbackDeck_spec: "distinct fallbackDeck_spec"
proof -
  have "distinct (map question fallbackDeck_spec)"
    unfolding questions_fallbackDeck_spec by simp
  then show ?thesis by (simp add: distinct_map)
qed

text \<open>With the built-in table the deck of a session is never empty.\<close>

lemma studyCardsOf_sampleQuestions_nonempty: "studyCardsOf sampleQuestions a \<noteq> []"
proof
  assume "studyCardsOf sampleQuestions a = []"
  then have "fallbackDeck_spec = []"
    by (simp add: studyCardsOf_empty_iff fallbackDeck_sampleQuestions)
  with length_fallbackDeck_spec show False by simp
qed

text \<open>
  Claim C10. When no card is saved and none is generated, the session starts on the
  fallback deck: the entries of the categories math, english, spanish, german, science
  and history in that order, each category in the order of its entries, every card
  tagged with its category. The deck is a function of the table alone, its cards are
  pairwise different, and the session begins at its first card.
\<close>

theorem start_fallback_deck:
  assumes "savedCards a = []" and "generatedCards a = []"
  shows "snd (startStudySession now a) = None
    \<and> cards (studySession (fst (startStudySession now a))) = fallbackDeck_spec
    \<and> currentCard (studySession (fst (startStudySession now a))) = 0
    \<and> map subject fallbackDeck_spec =
       [''math'', ''math'', ''math'', ''english'', ''english'', ''english'',
        ''spanish'', ''spanish'', ''spanish'', ''german'', ''german'', ''german'',
        ''science'', ''science'', ''science'', ''history'', ''history'', ''history'']
    \<and> distinct fallbackDeck_spec"
proof -
  have deck: "studyCardsOf sampleQuestions a = fallbackDeck_spec"
    using assms by (simp add: studyCardsOf_def fallbackDeck_sampleQuestions)
  from start_nonempty [of sampleQuestions a now, OF studyCardsOf_sampleQuestions_nonempty] deck
  show ?thesis
    by (simp add: startStudySession_def startedSession_def subjects_fallbackDeck_spec
        distinct_fallbackDeck_spec)
qed

theorem start_fallback_deck_witness:
  "map question (cards (studySession (fst (startStudySession 1700000000000 initialApp)))) =
     [''What is the Pythagorean theorem?'', ''What is the quadratic formula?'',
      ''What is 2 + 2?'', ''What is a metaphor?'', ''What are the three main types of irony?'',
      ''What is a noun?'', ''How do you say 'hello' in Spanish?'',
      ''What is the difference between 'ser' and 'estar'?'',
      ''How do you say 'thank you' in Spanish?'', ''How do you say 'thank you' in German?'',
      ''What are the three German articles?'', ''How do you say 'good morning' in German?'',
      ''What is photosynthesis?'', ''What are the three states of matter?'', ''What is DNA?'',
      ''When did World War II end?'', ''Who was the first president of the United States?'',
      ''What was the Renaissance?'']"
  using start_fallback_deck [of initialApp 1700000000000]
  by (simp add: initialApp_def questions_fallbackDeck_spec)

section \<open>Answering a card\<close>

lemma answerCard_correct:
  assumes "currentCard (studySession a) < length (cards (studySession a))"
  shows "answerCard now True a =
     (advance now
        (awardXP (xpValue (difficulty (cards (studySession a) ! currentCard (studySession a))))
           ''Correct answer!''
           (a\<lparr>studySession :=
                (studySession a)\<lparr>cardsStudied := cardsStudied (studySession a) + 1,
                   correctAnswers := correctAnswers (studySession a) + 1\<rparr>\<rparr>)), None)"
  using assms by (simp add: answerCard_def Let_def)

lemma answerCard_incorrect:
  "answerCard now False a =
     (advance now
        (a\<lparr>studySession :=
             (studySession a)\<lparr>cardsStudied := cardsStudied (studySession a) + 1\<rparr>\<rparr>), None)"
  by (simp add: answerCard_def Let_def)

text \<open>
  Past the deck, which is where a session stands between its last answer and the
  timeout that ends it, a right answer still counts twice and then throws: the position
  stays and nothing is awarded.
\<close>

lemma answerCard_past_deck:
  assumes "length (cards (studySession a)) \<le> currentCard (studySession a)"
  shows "answerCard now True a =
     (a\<lparr>studySession :=
          (studySession a)\<lparr>cardsStudied := cardsStudied (studySession a) + 1,
             correctAnswers := correctAnswers (studySession a) + 1\<rparr>\<rparr>, Some TypeError)"
  using assms by (simp add: answerCard_def Let_def)

text \<open>
  An answer given while the position is inside the deck raises no error, counts one more
  studied card and moves the position on by one. A right answer counts one more correct
  answer and awards, in one call with the reason of a correct answer, the value of the
  current card's difficulty: 3 for easy, 5 for medium, 8 for hard. A wrong answer leaves
  the correct answers and the experience as they are and awards nothing.
\<close>

lemma answerCard_counts:
  assumes "currentCard (studySession a) < length (cards (studySession a))"
  shows "snd (answerCard now isCorrect a) = None
    \<and> cardsStudied (studySession (fst (answerCard now isCorrect a)))
        = cardsStudied (studySession a) + 1
    \<and> currentCard (studySession (fst (answerCard now isCorrect a)))
        = currentCard (studySession a) + 1
    \<and> correctAnswers (studySession (fst (answerCard now isCorrect a)))
        = correctAnswers (studySession a) + (if isCorrect then 1 else 0)
    \<and> xpGains (drop (length (events a)) (events (fst (answerCard now isCorrect a))))
        = (if isCorrect
           then [(xpValue (difficulty (cards (studySession a) ! currentCard (studySession a))),
                  ''Correct answer!'')]
           else [])
    \<and> xp (userStats (fst (answerCard now isCorrect a)))
        = xp (userStats a)
          + (if isCorrect
             then xpValue (difficulty (cards (studySession a) ! currentCard (studySession a)))
             else 0)
    \<and> xpValue ''easy'' = 3 \<and> xpValue ''medium'' = 5 \<and> xpValue ''hard'' = 8"
proof (cases isCorrect)
  case True
  then show ?thesis
    using assms
    by (simp add: answerCard_correct studySession_advance advance_userStats xp_awardXP
        events_awardXP xpGains_append xpValue_table)
next
  case False
  then show ?thesis
    by (simp add: answerCard_incorrect studySession_advance advance_userStats xpValue_table)
qed

lemma twoCards_started:
  "fst (startStudySession 1700000000000 twoCards) =
     twoCards\<lparr>studySession := startedSession 1700000000000 1 (savedCards twoCards),
        events := [CardShown 0, Notification SessionStarted Success],
        intervals := [1], nextHandle := 2\<rparr>"
proof -
  have "studyCardsOf sampleQuestions twoCards = savedCards twoCards"
    by (simp add: studyCardsOf_def twoCards_def initialApp_def)
  then show ?thesis
    using start_nonempty [of sampleQuestions twoCards 1700000000000, OF studyCardsOf_sampleQuestions_nonempty]
    by (simp add: startStudySession_def twoCards_def initialApp_def)
qed

lemma answerCard_counts_example:
  "cardsStudied (studySession (fst (answerCard 1700000003000 True
      (fst (startStudySession 1700000000000 twoCards))))) = 1
   \<and> currentCard (studySession (fst (answerCard 1700000003000 True
      (fst (startStudySession 1700000000000 twoCards))))) = 1
   \<and> correctAnswers (studySession (fst (answerCard 1700000003000 True
      (fst (startStudySession 1700000000000 twoCards))))) = 1
   \<and> xp (userStats (fst (answerCard 1700000003000 True
      (fst (startStudySession 1700000000000 twoCards))))) = 3"
  using answerCard_counts [of "fst (startStudySession 1700000000000 twoCards)" 1700000003000 True]
  by (simp add: twoCards_started startedSession_def)
    (simp add: twoCards_def initialApp_def with_subject_def sq_def xpValue_table)

text \<open>
  Claim C6. Not every answer during an active session advances the position and awards
  the card's value. In a session of two cards whose last card was answered at 6000 ms,
  the session is still active 400 ms later (its end is due at 7000 ms), the answer
  buttons are still there, and the position is the length of the deck. A right answer
  then counts a third studied card and a third correct answer of two cards and throws:
  the position stays at 2 and no experience is awarded. \<open>showCurrentCard\<close> checks the
  position against the length of the deck; \<open>answerCard\<close> does not.
\<close>

theorem answer_after_last_card_throws:
  "active (studySession (run lastAnswerTrace twoCards))
   \<and> currentCard (studySession (run lastAnswerTrace twoCards)) = 2
   \<and> length (cards (studySession (run lastAnswerTrace twoCards))) = 2
   \<and> cardsStudied (studySession (run lastAnswerTrace twoCards)) = 2
   \<and> correctAnswers (studySession (run lastAnswerTrace twoCards)) = 2
   \<and> timeouts (run lastAnswerTrace twoCards) = [(1700000007000, CbEndStudySession)]
   \<and> xp (userStats (run lastAnswerTrace twoCards)) = 11
   \<and> snd (answerCard 1700000006400 True (run lastAnswerTrace twoCards)) = Some TypeError
   \<and> currentCard (studySession
         (fst (answerCard 1700000006400 True (run lastAnswerTrace twoCards)))) = 2
   \<and> cardsStudied (studySession
         (fst (answerCard 1700000006400 True (run lastAnswerTrace twoCards)))) = 3
   \<and> correctAnswers (studySession
         (fst (answerCard 1700000006400 True (run lastAnswerTrace twoCards)))) = 3
   \<and> xp (userStats (fst (answerCard 1700000006400 True (run lastAnswerTrace twoCards)))) = 11
   \<and> xpGains (events (fst (answerCard 1700000006400 True (run lastAnswerTrace twoCards))))
       = [(3, ''Correct answer!''), (8, ''Correct answer!'')]"
  by code_simp

section \<open>A whole deck\<close>

lemma answerCard_in_deck:
  assumes "currentCard (studySession a) < length (cards (studySession a))"
  shows "snd (answerCard t b a) = None"
    and "studySession (fst (answerCard t b a)) =
          (studySession a)\<lparr>cardsStudied := cardsStudied (studySession a) + 1,
             correctAnswers := correctAnswers (studySession a) + (if b then 1 else 0),
             currentCard := currentCard (studySession a) + 1\<rparr>"
    and "timeouts (fst (answerCard t b a)) =
          timeouts a @ [if currentCard (studySession a) + 1 \<ge> length (cards (studySession a))
                        then (t + 1000, CbEndStudySession) else (t + 500, CbShowCurrentCard)]"
    and "completions (events (fst (answerCard t b a))) = completions (events a)"
  using assms
  by (cases b; simp add: answerCard_correct answerCard_incorrect studySession_advance
        timeouts_advance events_awardXP completions_append)+

text \<open>An answer before the last card: the timeout shows the next card.\<close>

lemma settle_mid:
  assumes "timeouts a = []"
    and "currentCard (studySession a) + 1 < length (cards (studySession a))"
  shows "studySession (answerAndSettle t b a) =
          (studySession a)\<lparr>cardsStudied := cardsStudied (studySession a) + 1,
             correctAnswers := correctAnswers (studySession a) + (if b then 1 else 0),
             currentCard := currentCard (studySession a) + 1\<rparr>"
    and "timeouts (answerAndSettle t b a) = []"
    and "completions (events (answerAndSettle t b a)) = completions (events a)"
proof -
  let ?a1 = "fst (answerCard t b a)"
  have lt: "currentCard (studySession a) < length (cards (studySession a))"
    using assms(2) by simp
  have to: "timeouts ?a1 = [(t + 500, CbShowCurrentCard)]"
    using answerCard_in_deck(3) [OF lt, of t b] assms by simp
  have fire: "answerAndSettle t b a = showCurrentCard (t + 500) (?a1\<lparr>timeouts := []\<rparr>)"
    unfolding answerAndSettle_def using fireTimeouts_single [OF to] by (simp add: runCallback_def)
  have shown: "showCurrentCard (t + 500) (?a1\<lparr>timeouts := []\<rparr>)
      = emit (CardShown (currentCard (studySession a) + 1)) (?a1\<lparr>timeouts := []\<rparr>)"
    using assms(2) by (simp add: showCurrentCard_def answerCard_in_deck(2) [OF lt])
  show "studySession (answerAndSettle t b a) =
          (studySession a)\<lparr>cardsStudied := cardsStudied (studySession a) + 1,
             correctAnswers := correctAnswers (studySession a) + (if b then 1 else 0),
             currentCard := currentCard (studySession a) + 1\<rparr>"
    by (simp add: fire shown answerCard_in_deck(2) [OF lt])
  show "timeouts (answerAndSettle t b a) = []"
    by (simp add: fire shown)
  show "completions (events (answerAndSettle t b a)) = completions (events a)"
    by (simp add: fire shown completions_append answerCard_in_deck(4) [OF lt])
qed

text \<open>The answer to the last card: the timeout ends the session.\<close>

lemma settle_last:
  assumes "timeouts a = []"
    and "currentCard (studySession a) + 1 = length (cards (studySession a))"
  shows "studySession (answerAndSettle t b a) = idleSession"
    and "timeouts (answerAndSettle t b a) = []"
    and "map fst (completions (events (answerAndSettle t b a))) =
           map fst (completions (events a)) @ [cardsStudied (studySession a) + 1]"
proof -
  let ?a1 = "fst (answerCard t b a)"
  have lt: "currentCard (studySession a) < length (cards (studySession a))"
    using assms(2) by simp
  have to: "timeouts ?a1 = [(t + 1000, CbEndStudySession)]"
    using answerCard_in_deck(3) [OF lt, of t b] assms by simp
  have fire: "answerAndSettle t b a = endStudySession (t + 1000) (?a1\<lparr>timeouts := []\<rparr>)"
    unfolding answerAndSettle_def using fireTimeouts_single [OF to] by (simp add: runCallback_def)
  show "studySession (answerAndSettle t b a) = idleSession"
    by (simp add: fire)
  show "timeouts (answerAndSettle t b a) = []"
    by (simp add: fire)
  have "map fst (completions (events (answerAndSettle t b a))) =
      map fst (completions (events (?a1\<lparr>timeouts := []\<rparr>)))
        @ [cardsStudied (studySession (?a1\<lparr>timeouts := []\<rparr>))]"
    unfolding fire by (rule studied_endStudySession)
  then show "map fst (completions (events (answerAndSettle t b a))) =
           map fst (completions (events a)) @ [cardsStudied (studySession a) + 1]"
    by (simp add: answerCard_in_deck(2,4) [OF lt])
qed

lemma answerAll_Cons:
  "answerAll ((t, b) # rest) a =
     (fst (answerAll rest (answerAndSettle t b a)),
      (case snd (answerCard t b a) of None \<Rightarrow> [] | Some x \<Rightarrow> [x])
        @ snd (answerAll rest (answerAndSettle t b a)))"
  by (simp add: answerAndSettle_def split: prod.split)

text \<open>Fewer answers than cards are left: the session goes on, and nothing is reported.\<close>

lemma answerAll_before_end:
  assumes "timeouts a = []"
    and "currentCard (studySession a) + length steps < length (cards (studySession a))"
  shows "snd (answerAll steps a) = []
    \<and> timeouts (fst (answerAll steps a)) = []
    \<and> active (studySession (fst (answerAll steps a))) = active (studySession a)
    \<and> cards (studySession (fst (answerAll steps a))) = cards (studySession a)
    \<and> currentCard (studySession (fst (answerAll steps a)))
        = currentCard (studySession a) + length steps
    \<and> cardsStudied (studySession (fst (answerAll steps a)))
        = cardsStudied (studySession a) + length steps
    \<and> completions (events (fst (answerAll steps a))) = completions (events a)"
  using assms
proof (induction steps arbitrary: a)
  case Nil
  then show ?case by simp
next
  case (Cons x rest)
  obtain t b where x: "x = (t, b)" by (cases x)
  have lt: "currentCard (studySession a) < length (cards (studySession a))"
    and mid: "currentCard (studySession a) + 1 < length (cards (studySession a))"
    using Cons.prems(2) by simp_all
  let ?a1 = "answerAndSettle t b a"
  note m = settle_mid [OF Cons.prems(1) mid, of t b]
  have "currentCard (studySession ?a1) + length rest < length (cards (studySession ?a1))"
    using Cons.prems(2) by (simp add: m(1))
  from Cons.IH [OF m(2) this] m(3) answerCard_in_deck(1) [OF lt, of t b]
  show ?case
    by (simp add: x answerAll_Cons m(1) del: answerAll.simps(2))
qed

text \<open>
  In a session that was started and answered card by card, an active session has a
  current card: before the last answer the position is inside the deck.
\<close>

lemma active_session_has_current_card:
  assumes "studyCardsOf samples a = deck" and "timeouts a = []"
    and "length steps < length deck"
  shows "active (studySession (fst (answerAll steps (fst (startStudySessionWith samples t0 a)))))
    \<and> currentCard (studySession (fst (answerAll steps (fst (startStudySessionWith samples t0 a)))))
        < length (cards (studySession
            (fst (answerAll steps (fst (startStudySessionWith samples t0 a))))))"
proof -
  let ?a1 = "fst (startStudySessionWith samples t0 a)"
  have ne: "studyCardsOf samples a \<noteq> []" using assms(1,3) by auto
  note st = start_nonempty [OF ne, of t0]
  have s1: "studySession ?a1 = startedSession t0 (nextHandle a) deck"
    by (simp add: st assms(1))
  have t1: "timeouts ?a1 = []" by (simp add: st assms(2))
  have "currentCard (studySession ?a1) + length steps < length (cards (studySession ?a1))"
    using assms(3) by (simp add: s1 startedSession_def)
  from answerAll_before_end [OF t1 this] assms(3) show ?thesis
    by (simp add: s1 startedSession_def)
qed

text \<open>As many answers as cards are left: the session ends, and reports all of them.\<close>

lemma answerAll_run:
  assumes "timeouts a = []"
    and "currentCard (studySession a) + length steps = length (cards (studySession a))"
    and "steps \<noteq> []"
  shows "snd (answerAll steps a) = []
    \<and> studySession (fst (answerAll steps a)) = idleSession
    \<and> timeouts (fst (answerAll steps a)) = []
    \<and> map fst (completions (events (fst (answerAll steps a)))) =
        map fst (completions (events a)) @ [cardsStudied (studySession a) + length steps]"
  using assms
proof (induction steps arbitrary: a)
  case Nil
  then show ?case by simp
next
  case (Cons x rest)
  obtain t b where x: "x = (t, b)" by (cases x)
  have lt: "currentCard (studySession a) < length (cards (studySession a))"
    using Cons.prems(2) by simp
  show ?case
  proof (cases "rest = []")
    case True
    then have last: "currentCard (studySession a) + 1 = length (cards (studySession a))"
      using Cons.prems(2) by simp
    show ?thesis
      using True settle_last [OF Cons.prems(1) last, of t b]
        answerCard_in_deck(1) [OF lt, of t b]
      by (simp add: x answerAll_Cons del: answerAll.simps(2))
  next
    case False
    then have mid: "currentCard (studySession a) + 1 < length (cards (studySession a))"
      using Cons.prems(2) by (cases rest) simp_all
    let ?a1 = "answerAndSettle t b a"
    note m = settle_mid [OF Cons.prems(1) mid, of t b]
    have "currentCard (studySession ?a1) + length rest = length (cards (studySession ?a1))"
      using Cons.prems(2) by (simp add: m(1))
    from Cons.IH [OF m(2) this False] m(3) answerCard_in_deck(1) [OF lt, of t b]
    show ?thesis
      by (simp add: x answerAll_Cons m(1) del: answerAll.simps(2))
  qed
qed

text \<open>
  Claim C3. A session started on a deck of \<open>n \<ge> 1\<close> cards and answered \<open>n\<close> times, right
  or wrong in any mix, each answer followed by the timeout it registers: no call raises
  an error, after fewer than \<open>n\<close> answers the session is still active and has reported
  nothing, and after the \<open>n\<close>-th answer the session has ended by that answer's own
  timeout, with no call of \<open>endStudySession\<close> from outside; the one completion report
  says \<open>n\<close> cards studied, and the study session is the idle instance again.
\<close>

theorem deck_of_n_ends_after_n_answers:
  assumes "studyCardsOf samples a = deck" and "deck \<noteq> []" and "timeouts a = []"
    and "length steps = length deck"
  shows "snd (startStudySessionWith samples t0 a) = None
    \<and> (\<forall>k < length deck.
          active (studySession
            (fst (answerAll (take k steps) (fst (startStudySessionWith samples t0 a)))))
          \<and> completions (events
              (fst (answerAll (take k steps) (fst (startStudySessionWith samples t0 a)))))
            = completions (events a))
    \<and> snd (answerAll steps (fst (startStudySessionWith samples t0 a))) = []
    \<and> studySession (fst (answerAll steps (fst (startStudySessionWith samples t0 a))))
        = idleSession
    \<and> map fst (completions (events
          (fst (answerAll steps (fst (startStudySessionWith samples t0 a))))))
        = map fst (completions (events a)) @ [length deck]"
proof -
  let ?a1 = "fst (startStudySessionWith samples t0 a)"
  have ne: "studyCardsOf samples a \<noteq> []" using assms(1,2) by simp
  note st = start_nonempty [OF ne, of t0]
  have s1: "studySession ?a1 = startedSession t0 (nextHandle a) deck"
    by (simp add: st assms(1))
  have t1: "timeouts ?a1 = []" by (simp add: st assms(3))
  have c1: "completions (events ?a1) = completions (events a)"
    by (simp add: st completions_append)
  have before: "active (studySession (fst (answerAll (take k steps) ?a1)))
      \<and> completions (events (fst (answerAll (take k steps) ?a1))) = completions (events a)"
    if "k < length deck" for k
  proof -
    have "currentCard (studySession ?a1) + length (take k steps)
        < length (cards (studySession ?a1))"
      using that by (simp add: s1 startedSession_def assms(4))
    from answerAll_before_end [OF t1 this] c1 show ?thesis
      by (simp add: s1 startedSession_def)
  qed
  have "currentCard (studySession ?a1) + length steps = length (cards (studySession ?a1))"
    by (simp add: s1 startedSession_def assms(4))
  moreover have "steps \<noteq> []" using assms(2,4) by auto
  ultimately have run: "snd (answerAll steps ?a1) = []
    \<and> studySession (fst (answerAll steps ?a1)) = idleSession
    \<and> timeouts (fst (answerAll steps ?a1)) = []
    \<and> map fst (completions (events (fst (answerAll steps ?a1)))) =
        map fst (completions (events ?a1)) @ [cardsStudied (studySession ?a1) + length steps]"
    using t1 by (intro answerAll_run)
  from run c1 before show ?thesis
    by (simp add: s1 startedSession_def assms(4) st)
qed

theorem deck_of_n_ends_after_n_answers_witness:
  "studySession (fst (answerAll
      [(1700000003000, True), (1700000006000, False), (1700000009000, True)]
      (fst (startStudySessionWith sampleQuestions 1700000000000 threeCards)))) = idleSession
   \<and> map fst (completions (events (fst (answerAll
        [(1700000003000, True), (1700000006000, False), (1700000009000, True)]
        (fst (startStudySessionWith sampleQuestions 1700000000000 threeCards)))))) = [3]"
  using deck_of_n_ends_after_n_answers
    [of sampleQuestions threeCards "savedCards threeCards @ generatedCards threeCards"
        "[(1700000003000, True), (1700000006000, False), (1700000009000, True)]" 1700000000000]
  by (simp add: studyCardsOf_def threeCards_def initialApp_def)

section \<open>Pausing and resuming\<close>

text \<open>Pauses, resumes and ticks change the interval handle of the session and nothing else in it.\<close>

lemma run_pause_tick:
  assumes "list_all (\<lambda>(t, x). x = PauseResume \<or> x = Tick) ops"
  shows "studySession (run ops a) =
     (studySession a)\<lparr>timer := timer (studySession (run ops a))\<rparr>"
  using assms
proof (induction ops arbitrary: a)
  case Nil
  then show ?case by simp
next
  case (Cons p ops)
  obtain t x where p: "p = (t, x)" by (cases p)
  from Cons.prems have x: "x = PauseResume \<or> x = Tick"
    and rest: "list_all (\<lambda>(t, x). x = PauseResume \<or> x = Tick) ops"
    by (simp_all add: p)
  have "\<exists>b. studySession (step t x a) = (studySession a)\<lparr>timer := b\<rparr>"
    using x by (auto simp: pause_session tick_session intro: exI [of _ "timer (studySession a)"])
  then obtain b where b: "studySession (step t x a) = (studySession a)\<lparr>timer := b\<rparr>" ..
  from Cons.IH [OF rest, of "step t x a"] show ?case
    by (simp add: p b)
qed

text \<open>
  So the duration the end of the session computes does not depend on them: it is the
  time since the start.
\<close>

lemma duration_ignores_pauses:
  assumes "list_all (\<lambda>(t, x). x = PauseResume \<or> x = Tick) ops"
    and "startTime (studySession a) = Some t0"
  shows "sessionDuration now (studySession (run ops a)) = (now - t0) div 1000"
proof -
  have "sessionDuration now (studySession (run ops a)) = sessionDuration now (studySession a)"
    by (subst run_pause_tick [OF assms(1)]) simp
  then show ?thesis
    using assms(2) by (simp add: sessionDuration_def)
qed

text \<open>
  When the interval of the session is the only one registered, pausing leaves none, and
  the timer text keeps its value while the session is paused.
\<close>

lemma pause_stops_the_tick:
  assumes "pauseBtn a = Some ShowsPause" and "timer (studySession a) = Some h"
    and "set (intervals a) \<subseteq> {h}"
  shows "intervals (pauseStudySession a) = []
    \<and> tick now (pauseStudySession a) = pauseStudySession a"
proof -
  have "removeAll h (intervals a) = []"
    using assms(3) by (auto simp: removeAll_filter_not_eq filter_empty_conv)
  then have "intervals (pauseStudySession a) = []"
    using assms(1,2) by (simp add: pauseStudySession_def Let_def emit_def intervals_stopTimer)
  then show ?thesis by (simp add: tick_def)
qed

text \<open>
  A session started a second time (a study group opened while a session runs) keeps the
  interval of the first start: pausing clears the second one only, and 3 seconds into
  the pause a tick still moves the timer text, to 8 seconds after the second start.
\<close>

lemma pause_after_restart_keeps_ticking:
  "timer (studySession (run restartTrace initialApp)) = None
   \<and> intervals (run restartTrace initialApp) = [1]
   \<and> sessionTimerText (run restartTrace initialApp) = Some (0, 0)
   \<and> sessionTimerText (tick 1700000068000 (run restartTrace initialApp)) = Some (0, 8)"
  by code_simp

text \<open>
  Claim C2. Elapsed time does not accrue only while the session is active. A session is
  started, shows 0:04 at a tick, is paused after 5 seconds, resumed ten minutes later
  and looked at 5 seconds after that. The timer of the specification, which keeps a base
  offset, has 10 seconds. The code, which only stops and restarts the interval and
  computes \<open>Date.now() - startTime\<close>, has 610 seconds, shows 10:06 at the first tick after
  resuming, and awards at the end the bonus for ten minutes of studying to a session in
  which no card was answered.
\<close>

theorem paused_time_is_counted:
  "sessionTimerText (run pausedTrace initialApp) = Some (0, 4)
   \<and> sessionDuration 1700000610000 (studySession (run pausedTrace initialApp)) = 610
   \<and> timer_elapsed_spec 1700000610000
        (timer_resume_spec 1700000605000
           (timer_pause_spec 1700000005000 (timer_start_spec 1700000000000))) = 10
   \<and> sessionTimerText (tick 1700000606000 (run pausedTrace initialApp)) = Some (10, 6)
   \<and> completions (events (endStudySession 1700000610000 (run pausedTrace initialApp)))
       = [(0, 0, 5)]
   \<and> xpGains (events (endStudySession 1700000610000 (run pausedTrace initialApp)))
       = [(5, ''Study session completed!'')]"
  by code_simp

section \<open>Ending a session that is not running\<close>

text \<open>Pausing an idle session changes neither the study session nor the progress.\<close>

lemma pause_while_idle:
  assumes "timer (studySession a) = None" and "pauseBtn a = Some ShowsPause"
  shows "studySession (pauseStudySession a) = studySession a
    \<and> userStats (pauseStudySession a) = userStats a"
  using assms by (simp add: pause_session pauseStudySession_userStats)

text \<open>
  Claim C8. Ending a session that is idle is not without effect. With no start timestamp
  the duration is the whole of \<open>Date.now()\<close> in seconds, which is at least 600, so the
  bonus is 5 and it is awarded. It happens in the page when a session of two cards is
  ended by a click 300 ms after its last answer: the click ends the session, and the
  timeout of the last answer, still pending, ends the idle session 700 ms later, awards
  5 more experience and reports a second completion, of 0 cards. The same holds for the
  page as it is loaded.
\<close>

theorem end_while_idle_awards_xp:
  "studySession (run doubleEndTrace twoCards) = idleSession
   \<and> timeouts (run doubleEndTrace twoCards) = [(1700000007000, CbEndStudySession)]
   \<and> xp (userStats (run doubleEndTrace twoCards)) = 7
   \<and> xp (userStats (step 1700000007000 Timeouts (run doubleEndTrace twoCards))) = 12
   \<and> completions (events (step 1700000007000 Timeouts (run doubleEndTrace twoCards)))
       = [(2, 50, 4), (0, 0, 5)]
   \<and> xp (userStats (endStudySession 1700000000000 initialApp)) = 5
   \<and> xpGains (events (endStudySession 1700000000000 initialApp))
       = [(5, ''Study session completed!'')]"
  by code_simp

end
